theory Spec2Isabelle
  imports Complex_Main "HOL-Library.Sublist"
begin

section \<open>The DeepForest session wrapper (deepforest/deepforest.py)\<close>

text \<open>
  The class \<^verbatim>\<open>deepforest\<close> is a thin wrapper: every method marshals arguments, calls
  routines of other modules (\<^verbatim>\<open>utilities\<close>, \<^verbatim>\<open>retinanet_train\<close>, \<^verbatim>\<open>convert_model\<close>,
  \<^verbatim>\<open>predict\<close>, \<^verbatim>\<open>plt\<close>) and assigns attributes of \<^verbatim>\<open>self\<close>. The embedding keeps exactly
  that: the attributes are a record, the routines of the other modules are the fields of
  an environment record, every call of one of them is written to a call log, and an
  exception is a value of a sum type.
\<close>

subsection \<open>Values\<close>

type_synonym path = string

text \<open>An exception raised inside a collaborator, by its description.\<close>

type_synonym exn = string

text \<open>
  \<open>ValueError\<close> is the exception \<^verbatim>\<open>predict_image\<close> raises itself (line 86);
  \<open>Delegated\<close> is an exception of a collaborator, which the wrapper neither catches nor
  wraps.
\<close>

datatype error = ValueError string | Delegated exn

text \<open>A predicted bounding box: coordinates, class and score.\<close>

record box =
  xmin :: nat
  ymin :: nat
  xmax :: nat
  ymax :: nat
  label :: string
  score :: real

text \<open>An image is an array of rows of pixels, a pixel the list of its channels.\<close>

type_synonym image = "nat list list list"

text \<open>
  The arrays \<^verbatim>\<open>predict.predict_image\<close> hands back: a three-dimensional image array or
  a two-dimensional array of boxes.
\<close>

datatype ndarray = Image_array image | Box_array "box list"

text \<open>
  The slice \<^verbatim>\<open>image[:,:,::-1]\<close> of line 95: the channels of every pixel in reverse
  order. An array of two dimensions has no third axis to slice, numpy raises IndexError.
\<close>

fun reverse_channels :: "ndarray \<Rightarrow> exn + ndarray" where
  "reverse_channels (Image_array img) = Inr (Image_array (map (map rev) img))"
| "reverse_channels (Box_array bs) = Inl ''IndexError''"

subsection \<open>The collaborators and the call log\<close>

text \<open>
  One event per call that leaves the wrapper, with the arguments the wrapper passes.
\<close>

datatype 'm event =
    Read_config
  | Read_model path
  | Use_release_download
  | Format_args path "int option"
  | Print_args "string list"
  | Retinanet_train "string list" string "path list option" "nat option"
  | Convert_model "'m option"
  | Predict 'm path bool
  | Imshow ndarray
  | Show

text \<open>
  The world outside the wrapper: the state of the collaborators (file system, network,
  the deep-learning framework), of a type \<open>'w\<close> the wrapper never inspects, and the log
  of the calls made so far.
\<close>

record ('m, 'w) world =
  ext :: 'w
  calls :: "'m event list"

text \<open>
  The routines the module imports. Each one reads and changes the outside state and
  either returns a value or raises. \<open>'m\<close> is the type of model handles, \<open>'c\<close> of the
  configuration.
\<close>

record ('m, 'c, 'w) env =
  utilities_read_config :: "'w \<Rightarrow> (exn + 'c) \<times> 'w"
  utilities_read_model :: "path \<Rightarrow> 'c \<Rightarrow> 'w \<Rightarrow> (exn + 'm) \<times> 'w"
  utilities_use_release :: "'w \<Rightarrow> (exn + path) \<times> 'w"
  utilities_format_args :: "path \<Rightarrow> 'c \<Rightarrow> int option \<Rightarrow> 'w \<Rightarrow> (exn + string list) \<times> 'w"
  retinanet_train ::
    "string list \<Rightarrow> string \<Rightarrow> path list option \<Rightarrow> nat option \<Rightarrow> 'w \<Rightarrow> (exn + 'm \<times> 'm \<times> 'm) \<times> 'w"
  convert_model :: "'m option \<Rightarrow> 'w \<Rightarrow> (exn + 'm) \<times> 'w"
  predict_predict_image :: "'m \<Rightarrow> path \<Rightarrow> bool \<Rightarrow> 'w \<Rightarrow> (exn + ndarray) \<times> 'w"
  plt_imshow :: "ndarray \<Rightarrow> 'w \<Rightarrow> (exn + unit) \<times> 'w"
  plt_show :: "'w \<Rightarrow> (exn + unit) \<times> 'w"

text \<open>
  A call of a collaborator: it runs on the outside state, the event is logged, and an
  exception it raises propagates as \<open>Delegated\<close>.
\<close>

definition call ::
  "'m event \<Rightarrow> ('w \<Rightarrow> (exn + 'a) \<times> 'w) \<Rightarrow> ('m, 'w) world \<Rightarrow> (error + 'a) \<times> ('m, 'w) world" where
  "call ev f w =
     (case f (ext w) of
        (r, x) \<Rightarrow>
          (case r of Inl e \<Rightarrow> Inl (Delegated e) | Inr v \<Rightarrow> Inr v,
           \<lparr>ext = x, calls = calls w @ [ev]\<rparr>))"

text \<open>\<^verbatim>\<open>print\<close> writes a line and cannot fail; only the log records it.\<close>

definition print_args :: "string list \<Rightarrow> ('m, 'w) world \<Rightarrow> ('m, 'w) world" where
  "print_args arg_list w = w\<lparr>calls := calls w @ [Print_args arg_list]\<rparr>"

subsection \<open>The session object\<close>

text \<open>
  The attributes of \<^verbatim>\<open>self\<close>. \<open>saved_model\<close> and \<open>model\<close> hold Python's \<^verbatim>\<open>None\<close> as
  \<open>None\<close>; \<open>prediction_model\<close> and \<open>training_model\<close> are \<open>None\<close> until a method
  assigns them (\<^verbatim>\<open>__init__\<close> does not create them).
\<close>

record ('m, 'c) session =
  saved_model :: "path option"
  config :: 'c
  model :: "'m option"
  prediction_model :: "'m option"
  training_model :: "'m option"

text \<open>\<^verbatim>\<open>__init__(self, saved_model=None)\<close>, lines 26-36.\<close>

definition init ::
  "('m, 'c, 'w) env \<Rightarrow> path option \<Rightarrow> ('m, 'w) world \<Rightarrow>
     (error + ('m, 'c) session) \<times> ('m, 'w) world" where
  "init E sm w =
     (case call Read_config (utilities_read_config E) w of
        (Inl e, w1) \<Rightarrow> (Inl e, w1)
      | (Inr cfg, w1) \<Rightarrow>
          (case sm of
             Some p \<Rightarrow>
               (case call (Read_model p) (utilities_read_model E p cfg) w1 of
                  (Inl e, w2) \<Rightarrow> (Inl e, w2)
                | (Inr m, w2) \<Rightarrow>
                    (Inr \<lparr>saved_model = Some p, config = cfg, model = Some m,
                          prediction_model = None, training_model = None\<rparr>, w2))
           | None \<Rightarrow>
               (Inr \<lparr>saved_model = None, config = cfg, model = None,
                     prediction_model = None, training_model = None\<rparr>, w1)))"

text \<open>
  \<^verbatim>\<open>train\<close>, lines 38-58. The method has no \<^verbatim>\<open>return\<close> statement, so a call that
  completes hands Python's \<^verbatim>\<open>None\<close> to its caller: the returned value is an option,
  \<open>None\<close> for \<^verbatim>\<open>None\<close> and \<open>Some\<close> for a triple of model handles.
\<close>

definition train ::
  "('m, 'c, 'w) env \<Rightarrow> path \<Rightarrow> string \<Rightarrow> path list option \<Rightarrow> nat option \<Rightarrow> int option \<Rightarrow>
     ('m, 'c) session \<Rightarrow> ('m, 'w) world \<Rightarrow>
     (error + ('m \<times> 'm \<times> 'm) option) \<times> ('m, 'c) session \<times> ('m, 'w) world" where
  "train E annotations input_type list_of_tfrecords comet_experiment images_per_epoch s w =
     (case call (Format_args annotations images_per_epoch)
             (utilities_format_args E annotations (config s) images_per_epoch) w of
        (Inl e, w1) \<Rightarrow> (Inl e, s, w1)
      | (Inr arg_list, w1) \<Rightarrow>
          (case call (Retinanet_train arg_list input_type list_of_tfrecords comet_experiment)
                  (retinanet_train E arg_list input_type list_of_tfrecords comet_experiment)
                  (print_args arg_list w1) of
             (Inl e, w2) \<Rightarrow> (Inl e, s, w2)
           | (Inr (m, pm, tm), w2) \<Rightarrow>
               (Inr None,
                s\<lparr>model := Some m, prediction_model := Some pm, training_model := Some tm\<rparr>,
                w2)))"

text \<open>
  \<^verbatim>\<open>use_release\<close>, lines 60-71. \<^verbatim>\<open>self.saved_model\<close> is assigned before the model is
  read, so it keeps the new path when \<^verbatim>\<open>read_model\<close> raises.
\<close>

definition use_release ::
  "('m, 'c, 'w) env \<Rightarrow> ('m, 'c) session \<Rightarrow> ('m, 'w) world \<Rightarrow>
     (error + unit) \<times> ('m, 'c) session \<times> ('m, 'w) world" where
  "use_release E s w =
     (case call Use_release_download (utilities_use_release E) w of
        (Inl e, w1) \<Rightarrow> (Inl e, s, w1)
      | (Inr p, w1) \<Rightarrow>
          (case call (Read_model p) (utilities_read_model E p (config s)) w1 of
             (Inl e, w2) \<Rightarrow> (Inl e, s\<lparr>saved_model := Some p\<rparr>, w2)
           | (Inr m, w2) \<Rightarrow> (Inr (), s\<lparr>saved_model := Some p, model := Some m\<rparr>, w2)))"

text \<open>The message of the \<^verbatim>\<open>ValueError\<close> of line 86.\<close>

definition invalid_state_message :: string where
  "invalid_state_message =
     ''Model currently has no weights, either train a new model using deepforest.train, loading existing model, or use prebuilt model (see deepforest.use_release()''"

text \<open>
  Lines 94-96: \<^verbatim>\<open>plt.imshow(image[:,:,::-1])\<close>, then \<^verbatim>\<open>plt.show()\<close>.
\<close>

definition display ::
  "('m, 'c, 'w) env \<Rightarrow> ndarray \<Rightarrow> ('m, 'w) world \<Rightarrow> (error + unit) \<times> ('m, 'w) world" where
  "display E img w =
     (case reverse_channels img of
        Inl e \<Rightarrow> (Inl (Delegated e), w)
      | Inr flipped \<Rightarrow>
          (case call (Imshow flipped) (plt_imshow E flipped) w of
             (Inl e, w1) \<Rightarrow> (Inl e, w1)
           | (Inr u, w1) \<Rightarrow> call Show (plt_show E) w1))"

text \<open>\<^verbatim>\<open>predict_image\<close>, lines 73-100.\<close>

definition predict_image ::
  "('m, 'c, 'w) env \<Rightarrow> path \<Rightarrow> bool \<Rightarrow> bool \<Rightarrow> ('m, 'c) session \<Rightarrow> ('m, 'w) world \<Rightarrow>
     (error + ndarray) \<times> ('m, 'c) session \<times> ('m, 'w) world" where
  "predict_image E image_path return_plot show_flag s w =
     (if saved_model s = None then (Inl (ValueError invalid_state_message), s, w)
      else
        (case call (Convert_model (model s)) (convert_model E (model s)) w of
           (Inl e, w1) \<Rightarrow> (Inl e, s, w1)
         | (Inr pm, w1) \<Rightarrow>
             (let s1 = s\<lparr>prediction_model := Some pm\<rparr> in
              if return_plot then
                (case call (Predict pm image_path return_plot)
                        (predict_predict_image E pm image_path return_plot) w1 of
                   (Inl e, w2) \<Rightarrow> (Inl e, s1, w2)
                 | (Inr img, w2) \<Rightarrow>
                     (if show_flag then
                        (case display E img w2 of
                           (Inl e, w3) \<Rightarrow> (Inl e, s1, w3)
                         | (Inr u, w3) \<Rightarrow> (Inr img, s1, w3))
                      else (Inr img, s1, w2)))
              else
                (case call (Predict pm image_path return_plot)
                        (predict_predict_image E pm image_path return_plot) w1 of
                   (Inl e, w2) \<Rightarrow> (Inl e, s1, w2)
                 | (Inr boxes, w2) \<Rightarrow> (Inr boxes, s1, w2)))))"

subsection \<open>Sequences of public operations\<close>

datatype op =
    Train path string "path list option" "nat option" "int option"
  | Use_release
  | Predict_image path bool bool

text \<open>
  One operation on a session. A caller may catch an exception and go on, so the value
  or exception of the operation is dropped and the session and the world are kept as
  the operation left them.
\<close>

fun step ::
  "('m, 'c, 'w) env \<Rightarrow> op \<Rightarrow> ('m, 'c) session \<times> ('m, 'w) world \<Rightarrow>
     ('m, 'c) session \<times> ('m, 'w) world" where
  "step E (Train a it tf ce ipe) (s, w) = snd (train E a it tf ce ipe s w)"
| "step E Use_release (s, w) = snd (use_release E s w)"
| "step E (Predict_image p rp sh) (s, w) = snd (predict_image E p rp sh s w)"

fun run ::
  "('m, 'c, 'w) env \<Rightarrow> op list \<Rightarrow> ('m, 'c) session \<times> ('m, 'w) world \<Rightarrow>
     ('m, 'c) session \<times> ('m, 'w) world" where
  "run E [] sw = sw"
| "run E (o1 # os) sw = run E os (step E o1 sw)"

subsection \<open>The prediction routine\<close>

text \<open>
  Modelled from the spec: \<^verbatim>\<open>predict.predict_image\<close> (deepforest/predict.py), the routine
  \<^verbatim>\<open>predict_image\<close> delegates to, is not among the sources. The spec gives it two output
  modes: in plot mode it "returns an image array with bounding boxes rendered onto a copy
  of the input", in raw mode it "returns only the structured array of predicted bounding
  boxes, omitting any rendering". Reading the image file (\<open>imread\<close>), the detector
  (\<open>detect\<close>) and the colour of the boxes belong to the wrapped framework and are
  parameters.
\<close>

definition on_border :: "box \<Rightarrow> nat \<Rightarrow> nat \<Rightarrow> bool" where
  "on_border b r c =
     ((ymin b \<le> r \<and> r \<le> ymax b \<and> (c = xmin b \<or> c = xmax b)) \<or>
      (xmin b \<le> c \<and> c \<le> xmax b \<and> (r = ymin b \<or> r = ymax b)))"

text \<open>
  Modelled from the spec: rendering the boxes onto a copy of the input. The pixel in row
  \<open>r\<close> and column \<open>c\<close> takes the colour when it lies on the border of a box and keeps
  its value otherwise.
\<close>

definition draw_boxes :: "nat list \<Rightarrow> image \<Rightarrow> box list \<Rightarrow> image" where
  "draw_boxes colour img bs =
     map (\<lambda>(r, row).
            map (\<lambda>(c, px). if list_ex (\<lambda>b. on_border b r c) bs then colour else px)
              (enumerate 0 row))
       (enumerate 0 img)"

text \<open>The spatial dimensions of an image: the number of rows and the width of each.\<close>

definition spatial_dims :: "image \<Rightarrow> nat \<times> nat list" where
  "spatial_dims img = (length img, map length img)"

text \<open>
  Modelled from the spec: \<^verbatim>\<open>predict.predict_image(model, image_path, return_plot)\<close>,
  absent from the sources, with its plot mode and its raw mode.
\<close>

definition predict_image_spec ::
  "(path \<Rightarrow> 'w \<Rightarrow> (exn + image) \<times> 'w) \<Rightarrow> ('m \<Rightarrow> image \<Rightarrow> box list) \<Rightarrow> nat list \<Rightarrow>
     'm \<Rightarrow> path \<Rightarrow> bool \<Rightarrow> 'w \<Rightarrow> (exn + ndarray) \<times> 'w" where
  "predict_image_spec imread detect colour m image_path return_plot x =
     (case imread image_path x of
        (Inl e, x1) \<Rightarrow> (Inl e, x1)
      | (Inr img, x1) \<Rightarrow>
          (if return_plot then (Inr (Image_array (draw_boxes colour img (detect m img))), x1)
           else (Inr (Box_array (detect m img)), x1)))"

subsection \<open>A concrete environment\<close>

text \<open>
  Collaborators that always complete, for running the wrapper on concrete inputs. Model
  handles are numbers, the outside state is a counter that hands out the next handle.
\<close>

definition example_env :: "(nat, (string \<times> string) list, nat) env" where
  "example_env =
     \<lparr>utilities_read_config = (\<lambda>x. (Inr [(''batch_size'', ''1''), (''epochs'', ''1'')], x)),
      utilities_read_model = (\<lambda>p cfg x. (Inr x, Suc x)),
      utilities_use_release = (\<lambda>x. (Inr ''data/universal_model_july30.h5'', x)),
      utilities_format_args = (\<lambda>a cfg ipe x. (Inr [a, ''--backbone'', ''resnet50''], x)),
      retinanet_train = (\<lambda>args it tf ce x. (Inr (x, x + 1, x + 2), x + 3)),
      convert_model =
        (\<lambda>m x. case m of None \<Rightarrow> (Inl ''AttributeError'', x) | Some h \<Rightarrow> (Inr x, Suc x)),
      predict_predict_image =
        (\<lambda>m p rp x. (if rp then Inr (Image_array [[[1, 2, 3]]]) else Inr (Box_array []), x)),
      plt_imshow = (\<lambda>a x. (Inr (), x)),
      plt_show = (\<lambda>x. (Inr (), x))\<rparr>"

definition example_world :: "(nat, nat) world" where
  "example_world = \<lparr>ext = 0, calls = []\<rparr>"

text \<open>A session that holds a loaded model and an earlier prediction model.\<close>

definition example_session :: "(nat, (string \<times> string) list) session" where
  "example_session =
     \<lparr>saved_model = Some ''model.h5'', config = [(''batch_size'', ''1'')], model = Some 7,
      prediction_model = Some 8, training_model = None\<rparr>"

text \<open>The session \<^verbatim>\<open>deepforest()\<close> constructs: no saved-model path, no model.\<close>

definition empty_session :: "(nat, (string \<times> string) list) session" where
  "empty_session =
     \<lparr>saved_model = None, config = [(''batch_size'', ''1''), (''epochs'', ''1'')],
      model = None, prediction_model = None, training_model = None\<rparr>"

definition example_imread :: "path \<Rightarrow> nat \<Rightarrow> (exn + image) \<times> nat" where
  "example_imread p x = (Inr [[[1, 2, 3], [4, 5, 6]], [[7, 8, 9], [10, 11, 12]]], x)"

definition example_detect :: "nat \<Rightarrow> image \<Rightarrow> box list" where
  "example_detect m img =
     [\<lparr>xmin = 0, ymin = 0, xmax = 0, ymax = 1, label = ''Tree'', score = 1 / 2\<rparr>]"

text \<open>The concrete environment with the prediction routine of the spec.\<close>

definition plot_env :: "(nat, (string \<times> string) list, nat) env" where
  "plot_env =
     example_env\<lparr>predict_predict_image :=
       predict_image_spec example_imread example_detect [0, 0, 255]\<rparr>"

section \<open>Properties\<close>

subsection \<open>Auxiliary facts\<close>

lemma predict_image_no_saved_model:
  "saved_model s = None \<Longrightarrow>
     predict_image E p rp sh s w = (Inl (ValueError invalid_state_message), s, w)"
  by (simp add: predict_image_def)

lemma init_None_saved_model:
  "fst (init E None w) = Inr s0 \<Longrightarrow> saved_model s0 = None"
  by (auto simp add: init_def split: prod.splits sum.splits)

lemma train_saved_model: "saved_model (fst (snd (train E a it tf ce ipe s w))) = saved_model s"
  by (simp add: train_def split: prod.splits sum.splits)

lemma predict_image_saved_model:
  "saved_model (fst (snd (predict_image E p rp sh s w))) = saved_model s"
  by (simp add: predict_image_def Let_def split: prod.splits sum.splits)

lemma step_saved_model_None:
  "o1 \<noteq> Use_release \<Longrightarrow> saved_model (fst sw) = None \<Longrightarrow> saved_model (fst (step E o1 sw)) = None"
  by (cases o1; cases sw) (simp_all add: train_saved_model predict_image_saved_model)

lemma run_saved_model_None:
  "Use_release \<notin> set ops \<Longrightarrow> saved_model (fst sw) = None \<Longrightarrow> saved_model (fst (run E ops sw)) = None"
proof (induction ops arbitrary: sw)
  case Nil
  then show ?case by simp
next
  case (Cons o1 ops)
  from Cons.prems have "o1 \<noteq> Use_release" and rest: "Use_release \<notin> set ops" by auto
  with Cons.prems have "saved_model (fst (step E o1 sw)) = None"
    by (simp add: step_saved_model_None)
  with rest show ?case by (simp add: Cons.IH)
qed

text \<open>
  C2. A session constructed with no saved-model path, on which any sequence of \<^verbatim>\<open>train\<close>
  and \<^verbatim>\<open>predict_image\<close> calls but no \<^verbatim>\<open>use_release\<close> has run: \<^verbatim>\<open>predict_image\<close> raises
  the \<^verbatim>\<open>ValueError\<close> of line 86 for every image path, \<^verbatim>\<open>return_plot\<close> and \<^verbatim>\<open>show\<close>
  flag, and leaves the session and the world as they were. The message tells the caller
  to train a new model, to load an existing one, or to use \<^verbatim>\<open>deepforest.use_release()\<close>.
\<close>

theorem predict_image_without_saved_model:
  assumes "fst (init E None w) = Inr s0"
    and "Use_release \<notin> set ops"
    and "run E ops (s0, snd (init E None w)) = (s, w')"
  shows "predict_image E p rp sh s w' = (Inl (ValueError invalid_state_message), s, w') \<and>
         sublist ''train a new model'' invalid_state_message \<and>
         sublist ''loading existing model'' invalid_state_message \<and>
         sublist ''deepforest.use_release()'' invalid_state_message"
proof -
  have "saved_model s0 = None"
    using assms(1) by (rule init_None_saved_model)
  then have "saved_model (fst (run E ops (s0, snd (init E None w)))) = None"
    using assms(2) by (simp add: run_saved_model_None)
  then have "saved_model s = None"
    using assms(3) by simp
  then have "predict_image E p rp sh s w' = (Inl (ValueError invalid_state_message), s, w')"
    by (rule predict_image_no_saved_model)
  moreover have "sublist ''train a new model'' invalid_state_message"
    unfolding invalid_state_message_def by code_simp
  moreover have "sublist ''loading existing model'' invalid_state_message"
    unfolding invalid_state_message_def by code_simp
  moreover have "sublist ''deepforest.use_release()'' invalid_state_message"
    unfolding invalid_state_message_def by code_simp
  ultimately show ?thesis by simp
qed

lemma example_init_None:
  "init example_env None example_world =
     (Inr \<lparr>saved_model = None, config = [(''batch_size'', ''1''), (''epochs'', ''1'')],
           model = None, prediction_model = None, training_model = None\<rparr>,
      \<lparr>ext = 0, calls = [Read_config]\<rparr>)"
  by (simp add: init_def call_def example_env_def example_world_def)

theorem predict_image_without_saved_model_witness:
  "\<exists>s0 s w'.
     fst (init example_env None example_world) = Inr s0 \<and>
     Use_release \<notin> set [Train ''a.csv'' ''fit_generator'' None None None,
                          Predict_image ''plot.tif'' True False] \<and>
     run example_env [Train ''a.csv'' ''fit_generator'' None None None,
                      Predict_image ''plot.tif'' True False]
       (s0, snd (init example_env None example_world)) = (s, w') \<and>
     model s = Some 0 \<and>
     predict_image example_env ''plot.tif'' False True s w' =
       (Inl (ValueError invalid_state_message), s, w')"
proof -
  let ?ops = "[Train ''a.csv'' ''fit_generator'' None None None,
               Predict_image ''plot.tif'' True False]"
  let ?s0 = "\<lparr>saved_model = None, config = [(''batch_size'', ''1''), (''epochs'', ''1'')],
           model = None :: nat option, prediction_model = None :: nat option, training_model = None :: nat option\<rparr>"
  let ?r = "run example_env ?ops (?s0, snd (init example_env None example_world))"
  have a: "fst (init example_env None example_world) = Inr ?s0"
    by (simp add: example_init_None)
  have b: "Use_release \<notin> set ?ops" by simp
  have c: "?r = (fst ?r, snd ?r)" by simp
  have m: "model (fst ?r) = Some 0"
    by (simp add: init_def train_def predict_image_def call_def print_args_def
        example_env_def example_world_def)
  from predict_image_without_saved_model [OF a b c, of "''plot.tif''" False True] a b c m
  show ?thesis by blast
qed

text \<open>
  C1. The check of line 85 tests \<^verbatim>\<open>self.saved_model\<close>, not \<^verbatim>\<open>self.model\<close>. On the
  session \<^verbatim>\<open>deepforest()\<close> constructs, \<^verbatim>\<open>train\<close> completes and stores a model, and the
  next \<^verbatim>\<open>predict_image\<close> still raises the \<^verbatim>\<open>ValueError\<close> that tells the caller to train
  a model: the session holds a model and the check does not pass.
\<close>

theorem train_then_predict_image_raises:
  "(case init example_env None example_world of
      (r0, w0) \<Rightarrow>
        (case r0 of
           Inl e \<Rightarrow> False
         | Inr s0 \<Rightarrow>
             (case train example_env ''annotations.csv'' ''fit_generator'' None None None s0 w0 of
                (r1, s1, w1) \<Rightarrow>
                  r1 = Inr None \<and> model s1 = Some 0 \<and> saved_model s1 = None \<and>
                  fst (predict_image example_env ''plot.tif'' True False s1 w1) =
                    Inl (ValueError invalid_state_message))))"
  by (simp add: init_def train_def predict_image_def call_def print_args_def
      example_env_def example_world_def)

text \<open>
  C3. The docstring of \<^verbatim>\<open>train\<close> promises three returned models; the method has no
  \<^verbatim>\<open>return\<close> statement. No call of \<^verbatim>\<open>train\<close>, whatever the collaborators do, returns a
  triple of model handles to its caller.
\<close>

theorem train_returns_no_handles:
  "fst (train E annotations input_type list_of_tfrecords comet_experiment images_per_epoch s w)
     \<noteq> Inr (Some (m, pm, tm))"
  by (simp add: train_def split: prod.splits sum.splits)

lemma predict_image_calls:
  "saved_model s \<noteq> None \<Longrightarrow>
     \<exists>evs. calls (snd (snd (predict_image E p rp sh s w))) =
            calls w @ Convert_model (model s) # evs"
  by (auto simp add: predict_image_def display_def Let_def call_def
      split: prod.splits sum.splits)

lemma predict_image_passes_check:
  "saved_model s \<noteq> None \<Longrightarrow> fst (predict_image E p rp sh s w) \<noteq> Inl (ValueError msg)"
  by (auto simp add: predict_image_def display_def Let_def call_def
      split: prod.splits sum.splits)

lemma use_release_completes:
  "fst (use_release E s w) = Inr u \<Longrightarrow>
     \<exists>p m. fst (utilities_use_release E (ext w)) = Inr p \<and>
           fst (utilities_read_model E p (config s) (snd (utilities_use_release E (ext w)))) = Inr m \<and>
           fst (snd (use_release E s w)) = s\<lparr>saved_model := Some p, model := Some m\<rparr>"
  by (auto simp add: use_release_def call_def split: prod.splits sum.splits)

text \<open>
  C4. When \<^verbatim>\<open>use_release\<close> completes, the saved-model path of the session is the path
  \<^verbatim>\<open>utilities.use_release\<close> returned, the model is the one \<^verbatim>\<open>utilities.read_model\<close>
  read from that path, and a following \<^verbatim>\<open>predict_image\<close> does not raise the
  \<^verbatim>\<open>ValueError\<close> of line 86 but goes on to convert that model.
\<close>

theorem use_release_then_predict_image:
  assumes "fst (use_release E s w) = Inr u"
  shows "\<exists>p m.
           fst (utilities_use_release E (ext w)) = Inr p \<and>
           fst (utilities_read_model E p (config s) (snd (utilities_use_release E (ext w)))) = Inr m \<and>
           saved_model (fst (snd (use_release E s w))) = Some p \<and>
           model (fst (snd (use_release E s w))) = Some m \<and>
           fst (predict_image E image_path return_plot show_flag
                  (fst (snd (use_release E s w))) (snd (snd (use_release E s w))))
             \<noteq> Inl (ValueError invalid_state_message) \<and>
           (\<exists>evs. calls (snd (snd (predict_image E image_path return_plot show_flag
                     (fst (snd (use_release E s w))) (snd (snd (use_release E s w)))))) =
                  calls (snd (snd (use_release E s w))) @ Convert_model (Some m) # evs)"
proof -
  let ?s' = "fst (snd (use_release E s w))" and ?w' = "snd (snd (use_release E s w))"
  from use_release_completes [OF assms] obtain p m where
    p: "fst (utilities_use_release E (ext w)) = Inr p" and
    m: "fst (utilities_read_model E p (config s) (snd (utilities_use_release E (ext w)))) = Inr m" and
    s': "?s' = s\<lparr>saved_model := Some p, model := Some m\<rparr>"
    by blast
  from s' have sm: "saved_model ?s' = Some p" and md: "model ?s' = Some m" by simp_all
  from sm have present: "saved_model ?s' \<noteq> None" by simp
  have "fst (predict_image E image_path return_plot show_flag ?s' ?w')
          \<noteq> Inl (ValueError invalid_state_message)"
    using present by (rule predict_image_passes_check)
  moreover have "\<exists>evs. calls (snd (snd (predict_image E image_path return_plot show_flag ?s' ?w'))) =
      calls ?w' @ Convert_model (Some m) # evs"
    using predict_image_calls [OF present, of E image_path return_plot show_flag ?w'] md by simp
  ultimately show ?thesis using p m sm md by blast
qed

theorem use_release_then_predict_image_witness:
  "fst (use_release example_env empty_session example_world) = Inr () \<and>
   saved_model (fst (snd (use_release example_env empty_session example_world))) =
     Some ''data/universal_model_july30.h5'' \<and>
   model (fst (snd (use_release example_env empty_session example_world))) = Some 0 \<and>
   fst (predict_image example_env ''plot.tif'' False False
          (fst (snd (use_release example_env empty_session example_world)))
          (snd (snd (use_release example_env empty_session example_world))))
     \<noteq> Inl (ValueError invalid_state_message)"
proof -
  have h: "fst (use_release example_env empty_session example_world) = Inr ()"
    by (simp add: use_release_def call_def example_env_def example_world_def empty_session_def)
  have "saved_model (fst (snd (use_release example_env empty_session example_world))) =
     Some ''data/universal_model_july30.h5''"
    by (simp add: use_release_def call_def example_env_def example_world_def empty_session_def)
  moreover have "model (fst (snd (use_release example_env empty_session example_world))) = Some 0"
    by (simp add: use_release_def call_def example_env_def example_world_def empty_session_def)
  ultimately show ?thesis
    using h use_release_then_predict_image [OF h, of "''plot.tif''" False False] by blast
qed

text \<open>
  C5. Two runs of \<^verbatim>\<open>predict_image\<close> from the same session and world that differ only in
  the \<^verbatim>\<open>show\<close> flag. A value returned with \<^verbatim>\<open>show=True\<close> is the value returned with
  \<^verbatim>\<open>show=False\<close>; a value returned with \<^verbatim>\<open>show=False\<close> is returned with \<^verbatim>\<open>show=True\<close>
  too when the display of lines 95-96 completes; the session is left the same. The
  \<^verbatim>\<open>show=True\<close> run adds the display and nothing else: its calls are those of the other
  run followed by calls of \<^verbatim>\<open>plt.imshow\<close> and \<^verbatim>\<open>plt.show\<close> only; in plot mode, when the
  prediction routine returned an image, the first added call is \<^verbatim>\<open>plt.imshow\<close> on that
  image with its channels reversed, followed by nothing but \<^verbatim>\<open>plt.show\<close>; when the
  \<^verbatim>\<open>show=True\<close> run returns in plot mode, the added calls are exactly \<^verbatim>\<open>plt.imshow\<close> on
  the channel-reversed value and then \<^verbatim>\<open>plt.show\<close>, and the outside state is the one
  these two calls leave; and with \<^verbatim>\<open>return_plot=False\<close> the flag is ignored.
\<close>

theorem predict_image_show_flag:
  "(fst (predict_image E p rp True s w) = Inr v \<longrightarrow>
      fst (predict_image E p rp False s w) = Inr v) \<and>
   (fst (predict_image E p rp False s w) = Inr v \<and>
    (rp \<longrightarrow> fst (display E v (snd (snd (predict_image E p rp False s w)))) = Inr ()) \<longrightarrow>
      fst (predict_image E p rp True s w) = Inr v) \<and>
   fst (snd (predict_image E p rp True s w)) = fst (snd (predict_image E p rp False s w)) \<and>
   (\<exists>evs. calls (snd (snd (predict_image E p rp True s w))) =
            calls (snd (snd (predict_image E p rp False s w))) @ evs \<and>
          set evs \<subseteq> insert Show (range Imshow)) \<and>
   (rp \<and> fst (predict_image E p rp False s w) = Inr (Image_array img) \<longrightarrow>
      (\<exists>evs. calls (snd (snd (predict_image E p rp True s w))) =
               calls (snd (snd (predict_image E p rp False s w))) @
                 Imshow (Image_array (map (map rev) img)) # evs \<and>
             set evs \<subseteq> {Show})) \<and>
   (rp \<and> fst (predict_image E p rp True s w) = Inr v \<longrightarrow>
      (\<exists>flipped.
         reverse_channels v = Inr flipped \<and>
         calls (snd (snd (predict_image E p rp True s w))) =
           calls (snd (snd (predict_image E p rp False s w))) @ [Imshow flipped, Show] \<and>
         ext (snd (snd (predict_image E p rp True s w))) =
           snd (plt_show E (snd (plt_imshow E flipped
             (ext (snd (snd (predict_image E p rp False s w))))))))) \<and>
   (\<not> rp \<longrightarrow> predict_image E p rp True s w = predict_image E p rp False s w)"
proof -
  have a: "fst (predict_image E p rp True s w) = Inr v \<longrightarrow>
      fst (predict_image E p rp False s w) = Inr v"
    by (auto simp add: predict_image_def Let_def split: prod.splits sum.splits if_splits)
  have b: "fst (predict_image E p rp False s w) = Inr v \<and>
    (rp \<longrightarrow> fst (display E v (snd (snd (predict_image E p rp False s w)))) = Inr ()) \<longrightarrow>
      fst (predict_image E p rp True s w) = Inr v"
    by (auto simp add: predict_image_def Let_def split: prod.splits sum.splits if_splits)
  have c: "fst (snd (predict_image E p rp True s w)) = fst (snd (predict_image E p rp False s w))"
    by (auto simp add: predict_image_def Let_def split: prod.splits sum.splits if_splits)
  have d: "\<exists>evs. calls (snd (snd (predict_image E p rp True s w))) =
            calls (snd (snd (predict_image E p rp False s w))) @ evs \<and>
          set evs \<subseteq> insert Show (range Imshow)"
    by (auto simp add: predict_image_def display_def call_def Let_def
        split: prod.splits sum.splits if_splits)
  have e: "rp \<and> fst (predict_image E p rp False s w) = Inr (Image_array img) \<longrightarrow>
      (\<exists>evs. calls (snd (snd (predict_image E p rp True s w))) =
               calls (snd (snd (predict_image E p rp False s w))) @
                 Imshow (Image_array (map (map rev) img)) # evs \<and>
             set evs \<subseteq> {Show})"
    by (auto simp add: predict_image_def display_def call_def Let_def
        split: prod.splits sum.splits if_splits)
  have f: "rp \<and> fst (predict_image E p rp True s w) = Inr v \<longrightarrow>
      (\<exists>flipped.
         reverse_channels v = Inr flipped \<and>
         calls (snd (snd (predict_image E p rp True s w))) =
           calls (snd (snd (predict_image E p rp False s w))) @ [Imshow flipped, Show] \<and>
         ext (snd (snd (predict_image E p rp True s w))) =
           snd (plt_show E (snd (plt_imshow E flipped
             (ext (snd (snd (predict_image E p rp False s w))))))))"
    by (auto simp add: predict_image_def display_def call_def Let_def
        split: prod.splits sum.splits if_splits)
  have g: "\<not> rp \<longrightarrow> predict_image E p rp True s w = predict_image E p rp False s w"
    by (auto simp add: predict_image_def Let_def split: prod.splits sum.splits)
  from a b c d e f g show ?thesis by blast
qed

theorem predict_image_show_flag_witness:
  "fst (predict_image example_env ''plot.tif'' True False example_session example_world) =
     Inr (Image_array [[[1, 2, 3]]]) \<and>
   fst (predict_image example_env ''plot.tif'' True True example_session example_world) =
     Inr (Image_array [[[1, 2, 3]]]) \<and>
   calls (snd (snd (predict_image example_env ''plot.tif'' True False
     example_session example_world))) =
     [Convert_model (Some 7), Predict 0 ''plot.tif'' True] \<and>
   calls (snd (snd (predict_image example_env ''plot.tif'' True True
     example_session example_world))) =
     [Convert_model (Some 7), Predict 0 ''plot.tif'' True,
      Imshow (Image_array [[[3, 2, 1]]]), Show]"
proof -
  let ?quiet = "predict_image example_env ''plot.tif'' True False example_session example_world"
  let ?shown = "predict_image example_env ''plot.tif'' True True example_session example_world"
  have quiet: "fst ?quiet = Inr (Image_array [[[1, 2, 3]]])"
    by (simp add: predict_image_def call_def example_env_def example_world_def example_session_def)
  have quiet_calls: "calls (snd (snd ?quiet)) =
      [Convert_model (Some 7), Predict 0 ''plot.tif'' True]"
    by (simp add: predict_image_def call_def example_env_def example_world_def example_session_def)
  have completes: "fst (display example_env (Image_array [[[1, 2, 3]]]) (snd (snd ?quiet))) = Inr ()"
    by (simp add: predict_image_def display_def call_def example_env_def example_world_def
        example_session_def)
  note flag = predict_image_show_flag [of example_env "''plot.tif''" True example_session
      example_world "Image_array [[[1, 2, 3]]]" "[[[1, 2, 3]]]"]
  from flag quiet completes have shown: "fst ?shown = Inr (Image_array [[[1, 2, 3]]])"
    by blast
  with flag obtain flipped where
    "reverse_channels (Image_array [[[1, 2, 3]]]) = Inr flipped" and
    "calls (snd (snd ?shown)) = calls (snd (snd ?quiet)) @ [Imshow flipped, Show]"
    by blast
  then have "calls (snd (snd ?shown)) =
      calls (snd (snd ?quiet)) @ [Imshow (Image_array [[[3, 2, 1]]]), Show]"
    by auto
  with quiet shown quiet_calls show ?thesis by simp
qed

text \<open>
  C7. When \<^verbatim>\<open>utilities.format_args\<close> and the training entry point complete, \<^verbatim>\<open>train\<close>
  completes, and the session it leaves is the old one with \<^verbatim>\<open>model\<close>,
  \<^verbatim>\<open>prediction_model\<close> and \<^verbatim>\<open>training_model\<close> overwritten by the three handles the
  training entry point returned, whatever they held before.
\<close>

theorem train_overwrites_models:
  assumes "utilities_format_args E annotations (config s) images_per_epoch (ext w) = (Inr arg_list, x1)"
    and "retinanet_train E arg_list input_type list_of_tfrecords comet_experiment x1 =
           (Inr (m, pm, tm), x2)"
  shows "(\<exists>r. fst (train E annotations input_type list_of_tfrecords comet_experiment
                  images_per_epoch s w) = Inr r) \<and>
         fst (snd (train E annotations input_type list_of_tfrecords comet_experiment
                  images_per_epoch s w)) =
           s\<lparr>model := Some m, prediction_model := Some pm, training_model := Some tm\<rparr>"
  using assms by (simp add: train_def call_def print_args_def)

theorem train_overwrites_models_witness:
  "fst (train example_env ''annotations.csv'' ''fit_generator'' None None None
          example_session example_world) = Inr None \<and>
   fst (snd (train example_env ''annotations.csv'' ''fit_generator'' None None None
          example_session example_world)) =
     example_session\<lparr>model := Some 0, prediction_model := Some 1, training_model := Some 2\<rparr>"
proof -
  have args: "utilities_format_args example_env ''annotations.csv'' (config example_session) None
      (ext example_world) = (Inr [''annotations.csv'', ''--backbone'', ''resnet50''], 0)"
    by (simp add: example_env_def example_world_def)
  have handles: "retinanet_train example_env [''annotations.csv'', ''--backbone'', ''resnet50'']
      ''fit_generator'' None None 0 = (Inr (0, 1, 2), 3)"
    by (simp add: example_env_def)
  have ret: "fst (train example_env ''annotations.csv'' ''fit_generator'' None None None
          example_session example_world) = Inr None"
    by (simp add: train_def call_def print_args_def example_env_def example_world_def)
  from train_overwrites_models [OF args handles] ret show ?thesis by simp
qed

text \<open>
  C8. A \<^verbatim>\<open>predict_image\<close> call that passes the check of line 85 calls
  \<^verbatim>\<open>convert_model\<close> on the model the session holds, first of all and whatever
  \<^verbatim>\<open>prediction_model\<close> held before; \<^verbatim>\<open>model\<close>, \<^verbatim>\<open>saved_model\<close>, \<^verbatim>\<open>config\<close> and
  \<^verbatim>\<open>training_model\<close> are left unchanged; and \<^verbatim>\<open>prediction_model\<close> is the handle the
  conversion returned (when the conversion raises instead, the exception propagates and
  \<^verbatim>\<open>prediction_model\<close> is not assigned).
\<close>

theorem predict_image_reconverts:
  assumes "saved_model s \<noteq> None"
  shows "(\<exists>evs. calls (snd (snd (predict_image E p rp sh s w))) =
                calls w @ Convert_model (model s) # evs) \<and>
         model (fst (snd (predict_image E p rp sh s w))) = model s \<and>
         saved_model (fst (snd (predict_image E p rp sh s w))) = saved_model s \<and>
         config (fst (snd (predict_image E p rp sh s w))) = config s \<and>
         training_model (fst (snd (predict_image E p rp sh s w))) = training_model s \<and>
         (case fst (convert_model E (model s) (ext w)) of
            Inr pm \<Rightarrow> prediction_model (fst (snd (predict_image E p rp sh s w))) = Some pm
          | Inl d \<Rightarrow>
              fst (predict_image E p rp sh s w) = Inl (Delegated d) \<and>
              prediction_model (fst (snd (predict_image E p rp sh s w))) = prediction_model s)"
proof -
  have frame: "model (fst (snd (predict_image E p rp sh s w))) = model s \<and>
         saved_model (fst (snd (predict_image E p rp sh s w))) = saved_model s \<and>
         config (fst (snd (predict_image E p rp sh s w))) = config s \<and>
         training_model (fst (snd (predict_image E p rp sh s w))) = training_model s"
    by (simp add: predict_image_def Let_def split: prod.splits sum.splits)
  have conv: "(case fst (convert_model E (model s) (ext w)) of
            Inr pm \<Rightarrow> prediction_model (fst (snd (predict_image E p rp sh s w))) = Some pm
          | Inl d \<Rightarrow>
              fst (predict_image E p rp sh s w) = Inl (Delegated d) \<and>
              prediction_model (fst (snd (predict_image E p rp sh s w))) = prediction_model s)"
    using assms
    by (auto simp add: predict_image_def call_def Let_def split: prod.splits sum.splits)
  from predict_image_calls [OF assms] frame conv show ?thesis by blast
qed

theorem predict_image_reconverts_witness:
  "saved_model example_session \<noteq> None \<and>
   prediction_model example_session = Some 8 \<and>
   prediction_model (fst (snd (predict_image example_env ''plot.tif'' False False
     example_session example_world))) = Some 0 \<and>
   model (fst (snd (predict_image example_env ''plot.tif'' False False
     example_session example_world))) = Some 7"
proof -
  have present: "saved_model example_session \<noteq> None"
    by (simp add: example_session_def)
  have conv: "fst (convert_model example_env (model example_session) (ext example_world)) = Inr 0"
    by (simp add: example_env_def example_session_def example_world_def)
  have old: "prediction_model example_session = Some 8" "model example_session = Some 7"
    by (simp_all add: example_session_def)
  from predict_image_reconverts [OF present, of example_env "''plot.tif''" False False example_world]
    conv old present
  show ?thesis by simp
qed

lemma train_config: "config (fst (snd (train E a it tf ce ipe s w))) = config s"
  by (simp add: train_def split: prod.splits sum.splits)

lemma use_release_config: "config (fst (snd (use_release E s w))) = config s"
  by (simp add: use_release_def split: prod.splits sum.splits)

lemma predict_image_config: "config (fst (snd (predict_image E p rp sh s w))) = config s"
  by (simp add: predict_image_def Let_def split: prod.splits sum.splits)

lemma train_reads:
  "count_list (calls (snd (snd (train E a it tf ce ipe s w)))) Read_config =
     count_list (calls w) Read_config"
  by (simp add: train_def call_def print_args_def split: prod.splits sum.splits)

lemma use_release_reads:
  "count_list (calls (snd (snd (use_release E s w)))) Read_config =
     count_list (calls w) Read_config"
  by (simp add: use_release_def call_def split: prod.splits sum.splits)

lemma predict_image_reads:
  "count_list (calls (snd (snd (predict_image E p rp sh s w)))) Read_config =
     count_list (calls w) Read_config"
  by (simp add: predict_image_def display_def call_def Let_def split: prod.splits sum.splits)

lemma step_config:
  "config (fst (step E o1 sw)) = config (fst sw) \<and>
   count_list (calls (snd (step E o1 sw))) Read_config = count_list (calls (snd sw)) Read_config"
  by (cases o1; cases sw)
    (simp_all add: train_config use_release_config predict_image_config
      train_reads use_release_reads predict_image_reads)

lemma run_config:
  "config (fst (run E ops sw)) = config (fst sw) \<and>
   count_list (calls (snd (run E ops sw))) Read_config = count_list (calls (snd sw)) Read_config"
  by (induction ops arbitrary: sw) (simp_all add: step_config)

lemma init_reads:
  "fst (init E sm w) = Inr s0 \<Longrightarrow>
     fst (utilities_read_config E (ext w)) = Inr (config s0) \<and>
     count_list (calls (snd (init E sm w))) Read_config = count_list (calls w) Read_config + 1"
  by (auto simp add: init_def call_def split: prod.splits sum.splits option.splits)

text \<open>
  C9. For a session that \<^verbatim>\<open>__init__\<close> constructed and any sequence of public operations
  on it: the configuration of the session is still the value \<^verbatim>\<open>utilities.read_config\<close>
  returned at construction, and the call log holds exactly one more call of
  \<^verbatim>\<open>utilities.read_config\<close> than before the construction.
\<close>

theorem config_read_once:
  assumes "fst (init E sm w) = Inr s0"
    and "run E ops (s0, snd (init E sm w)) = (s, w')"
  shows "fst (utilities_read_config E (ext w)) = Inr (config s0) \<and>
         config s = config s0 \<and>
         count_list (calls w') Read_config = count_list (calls w) Read_config + 1"
proof -
  from run_config [of E ops "(s0, snd (init E sm w))"] assms(2)
  have "config s = config s0"
    and "count_list (calls w') Read_config = count_list (calls (snd (init E sm w))) Read_config"
    by simp_all
  with init_reads [OF assms(1)] show ?thesis by simp
qed

theorem config_read_once_witness:
  "\<exists>s0 s w'.
     fst (init example_env (Some ''model.h5'') example_world) = Inr s0 \<and>
     run example_env
       [Use_release, Train ''annotations.csv'' ''tfrecord'' (Some [''shard0'']) None (Some 5),
        Predict_image ''plot.tif'' True True]
       (s0, snd (init example_env (Some ''model.h5'') example_world)) = (s, w') \<and>
     config s = [(''batch_size'', ''1''), (''epochs'', ''1'')] \<and>
     count_list (calls w') Read_config = 1"
proof -
  let ?ops = "[Use_release, Train ''annotations.csv'' ''tfrecord'' (Some [''shard0'']) None (Some 5),
        Predict_image ''plot.tif'' True True]"
  let ?s0 = "\<lparr>saved_model = Some ''model.h5'',
       config = [(''batch_size'', ''1''), (''epochs'', ''1'')],
       model = Some (0 :: nat), prediction_model = None :: nat option,
       training_model = None :: nat option\<rparr>"
  let ?r = "run example_env ?ops (?s0, snd (init example_env (Some ''model.h5'') example_world))"
  have a: "fst (init example_env (Some ''model.h5'') example_world) = Inr ?s0"
    by (simp add: init_def call_def example_env_def example_world_def)
  have b: "?r = (fst ?r, snd ?r)"
    by simp
  have c: "count_list (calls example_world) (Read_config :: nat event) = 0"
    by (simp add: example_world_def)
  from config_read_once [OF a b] a b c show ?thesis
    by (intro exI [of _ ?s0] exI [of _ "fst ?r"] exI [of _ "snd ?r"]) simp
qed

text \<open>
  C10. When \<^verbatim>\<open>predict_image\<close> raises a \<^verbatim>\<open>ValueError\<close>, it is the one of line 86, every
  attribute of the session is as before, and the world is as before: the outside state is
  untouched and the call log has no new entry.
\<close>

theorem predict_image_error_leaves_state:
  assumes "fst (predict_image E p rp sh s w) = Inl (ValueError msg)"
  shows "predict_image E p rp sh s w = (Inl (ValueError invalid_state_message), s, w)"
proof (cases "saved_model s")
  case None
  then show ?thesis by (rule predict_image_no_saved_model)
next
  case (Some sm)
  then have "saved_model s \<noteq> None" by simp
  then have "fst (predict_image E p rp sh s w) \<noteq> Inl (ValueError msg)"
    by (rule predict_image_passes_check)
  with assms show ?thesis by simp
qed

theorem predict_image_error_leaves_state_witness:
  "predict_image example_env ''plot.tif'' True True empty_session example_world =
     (Inl (ValueError invalid_state_message), empty_session, example_world)"
proof -
  have raised: "fst (predict_image example_env ''plot.tif'' True True empty_session example_world) =
      Inl (ValueError invalid_state_message)"
    by (simp add: predict_image_def empty_session_def)
  show ?thesis
    by (rule predict_image_error_leaves_state [OF raised])
qed

lemma spatial_dims_draw_boxes: "spatial_dims (draw_boxes colour img bs) = spatial_dims img"
proof -
  have "map (\<lambda>x. length (snd x)) (enumerate 0 img) = map length (map snd (enumerate 0 img))"
    by (simp only: map_map comp_def)
  also have "\<dots> = map length img"
    by simp
  finally show ?thesis
    by (simp add: spatial_dims_def draw_boxes_def comp_def case_prod_unfold)
qed

text \<open>
  On a session that passes the check of line 85, with the prediction routine of the spec
  as \<^verbatim>\<open>predict.predict_image\<close> and when the conversion and the reading of the image
  complete, the two output modes are those of the routine: \<^verbatim>\<open>return_plot=False\<close> gives
  the array of boxes the detector predicted, \<^verbatim>\<open>return_plot=True\<close> the input image with
  the boxes drawn, which has the spatial dimensions of the input image.
\<close>

lemma predict_image_output_modes:
  assumes "predict_predict_image E = predict_image_spec imread detect colour"
    and "saved_model s \<noteq> None"
    and "convert_model E (model s) (ext w) = (Inr pm, x1)"
    and "imread p x1 = (Inr img0, x2)"
  shows "fst (predict_image E p False sh s w) = Inr (Box_array (detect pm img0)) \<and>
         fst (predict_image E p True False s w) =
           Inr (Image_array (draw_boxes colour img0 (detect pm img0))) \<and>
         spatial_dims (draw_boxes colour img0 (detect pm img0)) = spatial_dims img0 \<and>
         (case fst (predict_image E p True True s w) of
            Inr v \<Rightarrow> v = Image_array (draw_boxes colour img0 (detect pm img0))
          | Inl e \<Rightarrow> \<exists>d. e = Delegated d)"
proof -
  have raw: "fst (predict_image E p False sh s w) = Inr (Box_array (detect pm img0))"
    using assms by (simp add: predict_image_def predict_image_spec_def call_def)
  have plot: "fst (predict_image E p True False s w) =
           Inr (Image_array (draw_boxes colour img0 (detect pm img0)))"
    using assms by (simp add: predict_image_def predict_image_spec_def call_def)
  have shown: "(case fst (predict_image E p True True s w) of
            Inr v \<Rightarrow> v = Image_array (draw_boxes colour img0 (detect pm img0))
          | Inl e \<Rightarrow> \<exists>d. e = Delegated d)"
    using assms
    by (auto simp add: predict_image_def predict_image_spec_def display_def call_def
        split: sum.splits prod.splits)
  from raw plot shown spatial_dims_draw_boxes show ?thesis by blast
qed

lemma predict_image_output_modes_example:
  "fst (predict_image plot_env ''plot.tif'' False False example_session example_world) =
     Inr (Box_array
       [\<lparr>xmin = 0, ymin = 0, xmax = 0, ymax = 1, label = ''Tree'', score = 1 / 2\<rparr>]) \<and>
   fst (predict_image plot_env ''plot.tif'' True False example_session example_world) =
     Inr (Image_array [[[0, 0, 255], [4, 5, 6]], [[0, 0, 255], [10, 11, 12]]]) \<and>
   spatial_dims [[[0, 0, 255], [4, 5, 6]], [[0, 0, 255], [10, 11, 12]]] = (2, [2, 2])"
proof -
  have routine: "predict_predict_image plot_env =
      predict_image_spec example_imread example_detect [0, 0, 255]"
    by (simp add: plot_env_def)
  have present: "saved_model example_session \<noteq> None"
    by (simp add: example_session_def)
  have conv: "convert_model plot_env (model example_session) (ext example_world) = (Inr 0, 1)"
    by (simp add: plot_env_def example_env_def example_session_def example_world_def)
  have read: "example_imread ''plot.tif'' 1 =
      (Inr [[[1, 2, 3], [4, 5, 6]], [[7, 8, 9], [10, 11, 12]]], 1)"
    by (simp add: example_imread_def)
  have drawn: "draw_boxes [0, 0, 255] [[[1, 2, 3], [4, 5, 6]], [[7, 8, 9], [10, 11, 12]]]
      (example_detect 0 [[[1, 2, 3], [4, 5, 6]], [[7, 8, 9], [10, 11, 12]]]) =
      [[[0, 0, 255], [4, 5, 6]], [[0, 0, 255], [10, 11, 12]]]"
    by (simp add: draw_boxes_def on_border_def example_detect_def enumerate_eq_zip upt_rec)
  have dims: "spatial_dims [[[0, 0, 255], [4, 5, 6]], [[0, 0, 255], [10, 11, 12 :: nat]]] = (2, [2, 2])"
    by (simp add: spatial_dims_def)
  from predict_image_output_modes [OF routine present conv read, of False] drawn dims
  show ?thesis by (simp add: example_detect_def)
qed

text \<open>
  C6. A session in which a model is present need not pass the check of line 85, which
  tests \<^verbatim>\<open>self.saved_model\<close>: on the session \<^verbatim>\<open>deepforest()\<close> constructs, \<^verbatim>\<open>train\<close>
  completes and stores a model, and \<^verbatim>\<open>predict_image\<close> then returns neither the image
  (\<^verbatim>\<open>return_plot=True\<close>) nor the array of boxes (\<^verbatim>\<open>return_plot=False\<close>) of the prediction
  routine: in both modes it raises the \<^verbatim>\<open>ValueError\<close> of line 86 and calls nothing.
\<close>

theorem trained_session_output_modes_raise:
  "(case init plot_env None example_world of
      (r0, w0) \<Rightarrow>
        (case r0 of
           Inl e \<Rightarrow> False
         | Inr s0 \<Rightarrow>
             (case train plot_env ''annotations.csv'' ''fit_generator'' None None None s0 w0 of
                (r1, s1, w1) \<Rightarrow>
                  r1 = Inr None \<and> model s1 = Some 0 \<and>
                  predict_image plot_env ''plot.tif'' True False s1 w1 =
                    (Inl (ValueError invalid_state_message), s1, w1) \<and>
                  predict_image plot_env ''plot.tif'' False False s1 w1 =
                    (Inl (ValueError invalid_state_message), s1, w1))))"
  by (simp add: init_def train_def predict_image_def call_def print_args_def
      plot_env_def example_env_def example_world_def)

end
